theory Spec2Isabelle
  imports Main
begin

section \<open>Parakeet transcription server (parakeet-server/server.py)\<close>

text \<open>
  The server keeps one global, \<^verbatim>\<open>_model\<close>, and exposes two handlers, \<^verbatim>\<open>health\<close> and
  \<^verbatim>\<open>transcribe\<close>. The handlers are embedded as functions on an explicit server state.
  Everything the handlers obtain from outside the file (the upload's bytes, the name the
  temporary file receives, what \<^verbatim>\<open>from_pretrained\<close> and the model's \<^verbatim>\<open>transcribe\<close> do) is a
  parameter of the embedding. The two \<^verbatim>\<open>print\<close> calls of \<^verbatim>\<open>get_model\<close> are left out: they
  write to standard output only.
\<close>

subsection \<open>Exceptions\<close>

text \<open>
  A raised Python exception. \<^verbatim>\<open>except Exception\<close> catches the instances of \<^verbatim>\<open>Exception\<close>
  only; \<^verbatim>\<open>KeyboardInterrupt\<close>, \<^verbatim>\<open>SystemExit\<close> and the like derive from \<^verbatim>\<open>BaseException\<close>
  alone. \<open>PyException\<close> and \<open>PyBaseException\<close> carry what \<^verbatim>\<open>str(e)\<close> returns.
  \<open>FileNotFoundError p\<close> is the exception the operating system raises for the missing path
  \<open>p\<close> (errno 2); its string is built by \<open>str\<close> below.
\<close>

datatype exn =
    PyException string
  | PyBaseException string
  | FileNotFoundError string

fun is_Exception :: "exn \<Rightarrow> bool" where
  "is_Exception (PyException _) = True"
| "is_Exception (PyBaseException _) = False"
| "is_Exception (FileNotFoundError _) = True"

text \<open>
  \<^verbatim>\<open>repr\<close> of a Python string whose characters are code points below 256: the string is put
  in single quotes, or in double quotes when it holds a single quote and no double quote; a
  backslash and the chosen quote are escaped with a backslash, tab, newline and carriage
  return become \<^verbatim>\<open>\t\<close>, \<^verbatim>\<open>\n\<close> and \<^verbatim>\<open>\r\<close>, and every other non-printable character becomes \<^verbatim>\<open>\xhh\<close>.
\<close>

definition printable :: "char \<Rightarrow> bool" where
  "printable c =
     (let n = (of_char c :: nat)
      in if n < 32 then False
         else if n < 127 then True
         else if n < 161 then False
         else if n = 173 then False
         else True)"

definition hex_digit :: "nat \<Rightarrow> char" where
  "hex_digit n = ''0123456789abcdef'' ! (n mod 16)"

definition py_escape :: "char \<Rightarrow> char \<Rightarrow> string" where
  "py_escape q c =
     (if c = CHR 0x5C then [CHR 0x5C, CHR 0x5C]
      else if c = q then [CHR 0x5C, q]
      else if c = CHR 0x09 then [CHR 0x5C, CHR ''t'']
      else if c = CHR 0x0A then [CHR 0x5C, CHR ''n'']
      else if c = CHR 0x0D then [CHR 0x5C, CHR ''r'']
      else if printable c then [c]
      else [CHR 0x5C, CHR ''x'', hex_digit (of_char c div 16), hex_digit (of_char c)])"

definition py_repr :: "string \<Rightarrow> string" where
  "py_repr s =
     (let q = (if CHR 0x27 \<in> set s \<and> CHR 0x22 \<notin> set s then CHR 0x22 else CHR 0x27)
      in q # concat (map (py_escape q) s) @ [q])"

text \<open>
  \<^verbatim>\<open>str(e)\<close>. For the operating system's \<^verbatim>\<open>FileNotFoundError\<close> it is
  \<^verbatim>\<open>[Errno 2] No such file or directory: \<close> followed by the \<^verbatim>\<open>repr\<close> of the path.
\<close>

fun str :: "exn \<Rightarrow> string" where
  "str (PyException s) = s"
| "str (PyBaseException s) = s"
| "str (FileNotFoundError p) = ''[Errno 2] No such file or directory: '' @ py_repr p"

text \<open>
  What leaves a handler when it does not return: the \<^verbatim>\<open>HTTPException\<close> the handler raises
  itself (FastAPI renders it as a response with that status and the body
  \<^verbatim>\<open>{"detail": ...}\<close>), or any other exception, which the handler does not handle.
\<close>

datatype error =
    HTTPException nat string
  | Unhandled exn

subsection \<open>JSON values\<close>

text \<open>The numbers of a segment are copied as they are, so their type is a parameter.\<close>

datatype 'n json =
    JStr string
  | JNum 'n
  | JArr "'n json list"
  | JObj "(string \<times> 'n json) list"

subsection \<open>The suffix of a file name (pathlib)\<close>

text \<open>
  \<^verbatim>\<open>Path(audio.filename).suffix\<close> on a POSIX host, as \<^verbatim>\<open>pathlib.PurePosixPath\<close> computes it:
  the path is split at \<^verbatim>\<open>/\<close>, the empty components and the components \<^verbatim>\<open>.\<close> are dropped, the
  name is the last component left (empty when none is left), and the suffix is the name
  from its last dot on when that dot is neither the first nor the last character.
\<close>

fun split_sep :: "char \<Rightarrow> string \<Rightarrow> string list" where
  "split_sep c [] = [[]]"
| "split_sep c (x # xs) =
     (if x = c then [] # split_sep c xs
      else (case split_sep c xs of
              [] \<Rightarrow> [[x]]
            | y # ys \<Rightarrow> (x # y) # ys))"

definition path_parts :: "string \<Rightarrow> string list" where
  "path_parts f = filter (\<lambda>x. x \<noteq> [] \<and> x \<noteq> ''.'') (split_sep CHR ''/'' f)"

definition path_name :: "string \<Rightarrow> string" where
  "path_name f = (if path_parts f = [] then [] else last (path_parts f))"

text \<open>\<^verbatim>\<open>str.rfind\<close>: the highest index of the character, \<open>-1\<close> when it does not occur.\<close>

fun rfind :: "char \<Rightarrow> string \<Rightarrow> int" where
  "rfind c [] = -1"
| "rfind c (x # xs) =
     (if 0 \<le> rfind c xs then rfind c xs + 1
      else if x = c then 0
      else -1)"

definition path_suffix :: "string \<Rightarrow> string" where
  "path_suffix f =
     (let name = path_name f; i = rfind CHR ''.'' name
      in if 0 < i \<and> i < int (length name) - 1 then drop (nat i) name else [])"

subsection \<open>The upload and the temporary file\<close>

record upload =
  filename :: "string option"
  content_type :: "string option"

text \<open>
  Line 76: \<^verbatim>\<open>suffix = Path(audio.filename).suffix if audio.filename else ".webm"\<close>.
  Both \<^verbatim>\<open>None\<close> and the empty string are false in Python.
\<close>

definition artifact_suffix :: "string option \<Rightarrow> string" where
  "artifact_suffix fn =
     (case fn of
        None \<Rightarrow> ''.webm''
      | Some f \<Rightarrow> (if f = [] then ''.webm'' else path_suffix f))"

text \<open>
  \<^verbatim>\<open>tempfile.NamedTemporaryFile(delete=False, suffix=suffix)\<close> names the file
  \<^verbatim>\<open>dir/tmp<random><suffix>\<close>; the directory and the random part are chosen by the library.
\<close>

definition tmp_name :: "string \<Rightarrow> string \<Rightarrow> string \<Rightarrow> string" where
  "tmp_name dir rand sfx = dir @ ''/'' @ ''tmp'' @ rand @ sfx"

subsection \<open>The file system\<close>

text \<open>
  The files that exist, with their contents. \<^verbatim>\<open>os.unlink\<close> removes a file that exists and
  raises \<^verbatim>\<open>FileNotFoundError\<close> on one that does not.
\<close>

type_synonym files = "string \<rightharpoonup> string"

definition exists_file :: "files \<Rightarrow> string \<Rightarrow> bool" where
  "exists_file fs p = (fs p \<noteq> None)"

definition unlink :: "string \<Rightarrow> files \<Rightarrow> exn option \<times> files" where
  "unlink p fs =
     (if exists_file fs p then (None, fs(p := None))
      else (Some (FileNotFoundError p), fs))"

subsection \<open>The model handle\<close>

text \<open>
  The server's state: the global \<^verbatim>\<open>_model\<close> (an Isabelle name cannot start with an
  underscore), the files on disk, and a counter of the calls to \<^verbatim>\<open>from_pretrained\<close> made
  so far. The counter is not in the source; it records the calls for the theorems.
\<close>

record 'm server =
  g_model :: "'m option"
  constructions :: nat
  files :: files

text \<open>
  Lines 27 to 34. The first argument is what \<^verbatim>\<open>from_pretrained\<close> (with its import) does if
  it is called now: it returns a model or raises.
\<close>

definition get_model :: "exn + 'm \<Rightarrow> 'm server \<Rightarrow> (exn + 'm) \<times> 'm server" where
  "get_model load st =
     (case g_model st of
        None \<Rightarrow>
          (case load of
             Inl e \<Rightarrow> (Inl e, st\<lparr>constructions := Suc (constructions st)\<rparr>)
           | Inr m \<Rightarrow> (Inr m, st\<lparr>g_model := Some m, constructions := Suc (constructions st)\<rparr>))
      | Some m \<Rightarrow> (Inr m, st))"

text \<open>Calls of \<^verbatim>\<open>get_model\<close> one after the other, each with its own loader outcome.\<close>

fun get_model_calls :: "(exn + 'm) list \<Rightarrow> 'm server \<Rightarrow> (exn + 'm) list \<times> 'm server" where
  "get_model_calls [] st = ([], st)"
| "get_model_calls (load # loads) st =
     (case get_model load st of
        (r, st') \<Rightarrow> (case get_model_calls loads st' of (rs, st'') \<Rightarrow> (r # rs, st'')))"

subsection \<open>The health endpoint\<close>

text \<open>Lines 51 to 54.\<close>

definition health :: "'m server \<Rightarrow> 'n json \<times> 'm server" where
  "health st =
     (JObj [(''status'', JStr ''ok''), (''model'', JStr ''parakeet-tdt-0.6b-v3'')], st)"

subsection \<open>The transcription endpoint\<close>

text \<open>
  What the model returns: \<^verbatim>\<open>result.text\<close> and, when the attribute exists, \<^verbatim>\<open>result.segments\<close>,
  which may be \<^verbatim>\<open>None\<close>. The outer option of \<open>res_segments\<close> is \<^verbatim>\<open>hasattr(result, 'segments')\<close>.
\<close>

record 'n segment =
  seg_start :: 'n
  seg_end :: 'n
  seg_text :: string

record 'n result =
  res_text :: string
  res_segments :: "'n segment list option option"

text \<open>Python's truth value of a list or \<^verbatim>\<open>None\<close>, and \<^verbatim>\<open>x or []\<close>.\<close>

definition truthy :: "'a list option \<Rightarrow> bool" where
  "truthy v = (case v of None \<Rightarrow> False | Some xs \<Rightarrow> xs \<noteq> [])"

definition or_empty :: "'a list option \<Rightarrow> 'a list" where
  "or_empty v = (if truthy v then (case v of None \<Rightarrow> [] | Some xs \<Rightarrow> xs) else [])"

definition seg_json :: "'n segment \<Rightarrow> 'n json" where
  "seg_json seg =
     JObj [(''start'', JNum (seg_start seg)), (''end'', JNum (seg_end seg)),
           (''text'', JStr (seg_text seg))]"

text \<open>Lines 87 to 93: the content handed to \<^verbatim>\<open>JSONResponse\<close>.\<close>

definition response_content :: "'n result \<Rightarrow> 'n json" where
  "response_content r =
     JObj [(''text'', JStr (res_text r)),
           (''segments'',
              JArr (case res_segments r of
                      None \<Rightarrow> []
                    | Some v \<Rightarrow> (if truthy v then map seg_json (or_empty v) else [])))]"

fun json_field :: "string \<Rightarrow> 'n json \<Rightarrow> 'n json option" where
  "json_field k (JObj kvs) = map_of kvs k"
| "json_field k _ = None"

text \<open>
  What one request meets outside the handler: the name the temporary file receives, the
  outcome of \<^verbatim>\<open>await audio.read()\<close>, the outcome of \<^verbatim>\<open>tmp.write(content)\<close> (a failed write
  leaves some bytes in the file), the outcome of \<^verbatim>\<open>from_pretrained\<close> should it be called, and
  the model's \<^verbatim>\<open>transcribe\<close>: given the model, the path and the files, it returns a result or
  raises, and leaves the files as they are when the call ends. The last field is what
  \<^verbatim>\<open>json.dumps\<close> raises on a number, if anything: \<^verbatim>\<open>JSONResponse\<close> serialises its content when it
  is constructed, with \<^verbatim>\<open>allow_nan=False\<close>, and raises \<^verbatim>\<open>ValueError\<close> for NaN, for an infinity and
  for an integer beyond the interpreter's digit limit.
\<close>

datatype write_outcome = Written | WriteFailed exn string

record ('m, 'n) env =
  tmp_dir :: string
  tmp_rand :: string
  read_result :: "exn + string"
  write_result :: write_outcome
  load_result :: "exn + 'm"
  run_model :: "'m \<Rightarrow> string \<Rightarrow> files \<Rightarrow> (exn + 'n result) \<times> files"
  json_error :: "'n \<Rightarrow> exn option"

definition artifact_path :: "('m, 'n) env \<Rightarrow> upload \<Rightarrow> string" where
  "artifact_path env audio =
     tmp_name (tmp_dir env) (tmp_rand env) (artifact_suffix (filename audio))"

text \<open>
  The exception the serialisation of a content raises: that of the first number, in the
  order of the document, that does not serialise. Strings always serialise.
\<close>

fun first_error :: "exn option list \<Rightarrow> exn option" where
  "first_error [] = None"
| "first_error (None # rs) = first_error rs"
| "first_error (Some e # rs) = Some e"

fun render_error :: "('n \<Rightarrow> exn option) \<Rightarrow> 'n json \<Rightarrow> exn option" where
  "render_error f (JStr s) = None"
| "render_error f (JNum n) = f n"
| "render_error f (JArr vs) = first_error (map (render_error f) vs)"
| "render_error f (JObj kvs) = first_error (map (\<lambda>kv. render_error f (snd kv)) kvs)"

text \<open>
  Lines 83 to 93, the body of \<^verbatim>\<open>try\<close>. The \<^verbatim>\<open>return\<close> statement constructs the \<^verbatim>\<open>JSONResponse\<close>
  inside \<^verbatim>\<open>try\<close>, so a content that does not serialise raises there.
\<close>

definition try_block ::
  "('m, 'n) env \<Rightarrow> string \<Rightarrow> 'm server \<Rightarrow> (exn + 'n json) \<times> 'm server" where
  "try_block env tmp_path st =
     (case get_model (load_result env) st of
        (Inl e, st1) \<Rightarrow> (Inl e, st1)
      | (Inr model, st1) \<Rightarrow>
          (case run_model env model tmp_path (files st1) of
             (Inl e, fs) \<Rightarrow> (Inl e, st1\<lparr>files := fs\<rparr>)
           | (Inr result, fs) \<Rightarrow>
               (case render_error (json_error env) (response_content result) of
                  Some e \<Rightarrow> (Inl e, st1\<lparr>files := fs\<rparr>)
                | None \<Rightarrow> (Inr (response_content result), st1\<lparr>files := fs\<rparr>))))"

text \<open>
  Lines 95 and 96: \<^verbatim>\<open>except Exception as e: raise HTTPException(status_code=500, detail=str(e))\<close>.
\<close>

definition except_clause :: "exn + 'a \<Rightarrow> error + 'a" where
  "except_clause r =
     (case r of
        Inr v \<Rightarrow> Inr v
      | Inl e \<Rightarrow> (if is_Exception e then Inl (HTTPException 500 (str e)) else Inl (Unhandled e)))"

text \<open>
  Lines 98 to 100: \<^verbatim>\<open>finally: os.unlink(tmp_path)\<close>. An exception raised in \<^verbatim>\<open>finally\<close> replaces
  the pending return value or exception.
\<close>

definition finally_clause ::
  "string \<Rightarrow> (error + 'a) \<times> 'm server \<Rightarrow> (error + 'a) \<times> 'm server" where
  "finally_clause tmp_path rs =
     (case rs of
        (r, st) \<Rightarrow>
          (case unlink tmp_path (files st) of
             (None, fs) \<Rightarrow> (r, st\<lparr>files := fs\<rparr>)
           | (Some e, fs) \<Rightarrow> (Inl (Unhandled e), st\<lparr>files := fs\<rparr>)))"

text \<open>
  Lines 57 to 100. \<^verbatim>\<open>allowed_types\<close> and \<^verbatim>\<open>content_type\<close> are computed and never used, so they
  have no part here. The \<^verbatim>\<open>with\<close> block creates the file and closes it on every exit;
  \<^verbatim>\<open>delete=False\<close> keeps the file on disk when it is closed. An exception raised inside the
  \<^verbatim>\<open>with\<close> block leaves the handler from there: the \<^verbatim>\<open>try\<close> statement starts after the block.
\<close>

definition transcribe ::
  "('m, 'n) env \<Rightarrow> upload \<Rightarrow> 'm server \<Rightarrow> (error + 'n json) \<times> 'm server" where
  "transcribe env audio st =
     (let tmp_path = artifact_path env audio;
          st0 = st\<lparr>files := (files st)(tmp_path \<mapsto> [])\<rparr>
      in case read_result env of
           Inl e \<Rightarrow> (Inl (Unhandled e), st0)
         | Inr content \<Rightarrow>
             (case write_result env of
                WriteFailed e partial \<Rightarrow>
                  (Inl (Unhandled e), st0\<lparr>files := (files st0)(tmp_path \<mapsto> partial)\<rparr>)
              | Written \<Rightarrow>
                  (case try_block env tmp_path (st0\<lparr>files := (files st0)(tmp_path \<mapsto> content)\<rparr>) of
                     (r, st1) \<Rightarrow> finally_clause tmp_path (except_clause r, st1))))"

subsection \<open>Example requests\<close>

definition no_files :: files where
  "no_files = Map.empty"

definition unloaded :: "string server" where
  "unloaded = \<lparr>g_model = None, constructions = 0, files = no_files\<rparr>"

definition clip_flac :: upload where
  "clip_flac = \<lparr>filename = Some ''clip.flac'', content_type = Some ''audio/flac''\<rparr>"

definition hello :: "int result" where
  "hello = \<lparr>res_text = ''hello'',
            res_segments = Some (Some [\<lparr>seg_start = 0, seg_end = 1, seg_text = ''hello''\<rparr>])\<rparr>"

text \<open>Behaviours of the model's \<^verbatim>\<open>transcribe\<close>: it returns, it raises, it loses the file.\<close>

definition model_returns ::
  "'n result \<Rightarrow> 'm \<Rightarrow> string \<Rightarrow> files \<Rightarrow> (exn + 'n result) \<times> files" where
  "model_returns r m p fs = (Inr r, fs)"

definition model_raises ::
  "exn \<Rightarrow> 'm \<Rightarrow> string \<Rightarrow> files \<Rightarrow> (exn + 'n result) \<times> files" where
  "model_raises e m p fs = (Inl e, fs)"

definition model_returns_file_gone ::
  "'n result \<Rightarrow> 'm \<Rightarrow> string \<Rightarrow> files \<Rightarrow> (exn + 'n result) \<times> files" where
  "model_returns_file_gone r m p fs = (Inr r, fs(p := None))"

text \<open>Every number of the examples is a small integer and serialises.\<close>

definition numbers_ok :: "int \<Rightarrow> exn option" where
  "numbers_ok n = None"

definition request_env ::
  "exn + string \<Rightarrow> (string \<Rightarrow> string \<Rightarrow> files \<Rightarrow> (exn + int result) \<times> files)
     \<Rightarrow> (string, int) env" where
  "request_env rd run =
     \<lparr>tmp_dir = ''/tmp'', tmp_rand = ''a1b2'', read_result = rd, write_result = Written,
      load_result = Inr ''parakeet'', run_model = run, json_error = numbers_ok\<rparr>"

subsection \<open>Helper facts on file names\<close>

lemma split_sep_not_Nil: "split_sep c s \<noteq> []"
  by (induction s) (auto split: list.splits)

lemma split_sep_no_sep: "c \<notin> set s \<Longrightarrow> split_sep c s = [s]"
  by (induction s) auto

lemma split_sep_append:
  "c \<notin> set ys \<Longrightarrow>
   split_sep c (xs @ ys) = butlast (split_sep c xs) @ [last (split_sep c xs) @ ys]"
proof (induction xs)
  case Nil
  then show ?case by (simp add: split_sep_no_sep)
next
  case (Cons x xs)
  obtain b bs where b: "split_sep c xs = b # bs"
    using split_sep_not_Nil [of c xs] by (cases "split_sep c xs") auto
  show ?case
  proof (cases "x = c")
    case True
    with Cons b show ?thesis by simp
  next
    case False
    with Cons b show ?thesis by (cases bs) simp_all
  qed
qed

lemma last_split_sep_append:
  "c \<notin> set ys \<Longrightarrow> last (split_sep c (xs @ ys)) = last (split_sep c xs) @ ys"
  by (simp add: split_sep_append)

lemma last_filter_keep: "xs \<noteq> [] \<Longrightarrow> P (last xs) \<Longrightarrow> last (filter P xs) = last xs"
  by (induction xs rule: rev_induct) simp_all

lemma last_split_sep_nonempty:
  "s \<noteq> [] \<Longrightarrow> last s \<noteq> c \<Longrightarrow> last (split_sep c s) \<noteq> []"
proof (induction s)
  case Nil
  then show ?case by simp
next
  case (Cons x xs)
  obtain b bs where b: "split_sep c xs = b # bs"
    using split_sep_not_Nil [of c xs] by (cases "split_sep c xs") auto
  from Cons b show ?case
    by (cases xs; cases bs) (auto split: if_splits)
qed

lemma set_split_sep: "\<forall>t \<in> set (split_sep c s). set t \<subseteq> set s"
proof (induction s)
  case Nil
  then show ?case by simp
next
  case (Cons x xs)
  obtain b bs where b: "split_sep c xs = b # bs"
    using split_sep_not_Nil [of c xs] by (cases "split_sep c xs") auto
  from Cons b show ?case by auto
qed

lemma set_path_name: "set (path_name f) \<subseteq> set f"
proof (cases "path_parts f = []")
  case True
  then show ?thesis by (simp add: path_name_def)
next
  case False
  then have "last (path_parts f) \<in> set (path_parts f)" by simp
  then have "last (path_parts f) \<in> set (split_sep CHR ''/'' f)"
    by (simp add: path_parts_def)
  with False set_split_sep [of "CHR ''/''" f] show ?thesis
    by (simp add: path_name_def)
qed

lemma rfind_absent: "c \<notin> set s \<Longrightarrow> rfind c s = -1"
  by (induction s) auto

lemma rfind_append_dot:
  "c \<notin> set ys \<Longrightarrow> rfind c (xs @ c # ys) = int (length xs)"
  by (induction xs) (auto simp: rfind_absent)

lemma path_name_ext:
  assumes "pre \<noteq> []" "last pre \<noteq> CHR ''/''" "CHR ''/'' \<notin> set ext"
  shows "path_name (pre @ CHR ''.'' # ext) =
         last (split_sep CHR ''/'' pre) @ CHR ''.'' # ext"
proof -
  let ?l = "last (split_sep CHR ''/'' pre)"
  let ?s = "split_sep CHR ''/'' (pre @ CHR ''.'' # ext)"
  have l: "?l \<noteq> []" using assms by (simp add: last_split_sep_nonempty)
  have last_eq: "last ?s = ?l @ CHR ''.'' # ext"
    using assms(3) last_split_sep_append [of "CHR ''/''" "CHR ''.'' # ext" pre] by simp
  have keep: "last ?s \<noteq> [] \<and> last ?s \<noteq> ''.''"
    using l last_eq by (cases ?l) auto
  have "last (path_parts (pre @ CHR ''.'' # ext)) = last ?s"
    unfolding path_parts_def using keep split_sep_not_Nil
    by (simp add: last_filter_keep)
  moreover have "path_parts (pre @ CHR ''.'' # ext) \<noteq> []"
  proof -
    have "last ?s \<in> set ?s" using split_sep_not_Nil by simp
    then have "last ?s \<in> set (path_parts (pre @ CHR ''.'' # ext))"
      unfolding path_parts_def using keep by simp
    then show ?thesis by auto
  qed
  ultimately show ?thesis by (simp add: path_name_def last_eq)
qed

lemma path_suffix_ext:
  assumes "pre \<noteq> []" "last pre \<noteq> CHR ''/''" "ext \<noteq> []"
    "CHR ''/'' \<notin> set ext" "CHR ''.'' \<notin> set ext"
  shows "path_suffix (pre @ CHR ''.'' # ext) = CHR ''.'' # ext"
proof -
  let ?l = "last (split_sep CHR ''/'' pre)"
  have l: "?l \<noteq> []" using assms by (simp add: last_split_sep_nonempty)
  have n: "path_name (pre @ CHR ''.'' # ext) = ?l @ CHR ''.'' # ext"
    using assms by (simp add: path_name_ext)
  have r: "rfind CHR ''.'' (?l @ CHR ''.'' # ext) = int (length ?l)"
    using assms(5) by (rule rfind_append_dot)
  from l have "0 < length ?l" by simp
  with assms(3) show ?thesis
    by (simp add: path_suffix_def n r Let_def)
qed

lemma path_suffix_no_dot: "CHR ''.'' \<notin> set f \<Longrightarrow> path_suffix f = []"
proof -
  assume "CHR ''.'' \<notin> set f"
  with set_path_name [of f] have "CHR ''.'' \<notin> set (path_name f)" by auto
  then have "rfind CHR ''.'' (path_name f) = -1" by (rule rfind_absent)
  then show ?thesis by (simp add: path_suffix_def Let_def)
qed

subsection \<open>Helper facts on the handlers\<close>

lemma finally_clause_removes:
  "\<not> exists_file (files (snd (finally_clause p rs))) p"
  by (cases rs) (simp add: finally_clause_def unlink_def exists_file_def)

lemma clip_flac_suffix: "artifact_suffix (Some ''clip.flac'') = ''.flac''"
  using path_suffix_ext [of "''clip''" "''flac''"] by (simp add: artifact_suffix_def)

lemma clip_flac_path: "artifact_path (request_env rd run) clip_flac = ''/tmp/tmpa1b2.flac''"
  by (simp add: artifact_path_def request_env_def clip_flac_def clip_flac_suffix tmp_name_def)

lemma transcribe_written:
  assumes "read_result env = Inr content" and "write_result env = Written"
  shows "transcribe env audio st =
         (case try_block env (artifact_path env audio)
                 (st\<lparr>files := (files st)(artifact_path env audio \<mapsto> content)\<rparr>) of
            (r, st1) \<Rightarrow> finally_clause (artifact_path env audio) (except_clause r, st1))"
  using assms by (simp add: transcribe_def Let_def)

lemma get_model_calls_ready:
  "g_model st = Some m \<Longrightarrow>
   get_model_calls loads st = (replicate (length loads) (Inr m), st)"
  by (induction loads) (simp_all add: get_model_def)

lemma get_model_files:
  "get_model load (st\<lparr>files := fs\<rparr>) =
     (fst (get_model load st), (snd (get_model load st))\<lparr>files := fs\<rparr>)"
  by (simp add: get_model_def split: option.splits sum.splits)

text \<open>
  A request that meets no failure returns the mapped result: the upload is read and
  written, a model is there or is constructed, the model returns, and the file is still
  there for the cleanup.
\<close>

lemma first_error_None: "(first_error rs = None) = (\<forall>r \<in> set rs. r = None)"
  by (induction rs rule: first_error.induct) simp_all

lemma render_response_content:
  assumes "\<And>xs seg. res_segments r = Some (Some xs) \<Longrightarrow> seg \<in> set xs \<Longrightarrow>
             f (seg_start seg) = None \<and> f (seg_end seg) = None"
  shows "render_error f (response_content r) = None"
proof (cases "res_segments r")
  case None
  then show ?thesis by (simp add: response_content_def)
next
  case (Some v)
  show ?thesis
  proof (cases v)
    case None
    with Some show ?thesis by (simp add: response_content_def truthy_def)
  next
    case (Some xs)
    with \<open>res_segments r = Some v\<close> have r: "res_segments r = Some (Some xs)" by simp
    have "\<forall>seg \<in> set xs. render_error f (seg_json seg) = None"
      using assms [OF r] by (simp add: seg_json_def)
    then have "first_error (map (render_error f) (map seg_json xs)) = None"
      by (simp add: first_error_None)
    with r show ?thesis
      by (simp add: response_content_def truthy_def or_empty_def)
  qed
qed

lemma transcribe_returns_response:
  assumes "read_result env = Inr content" and "write_result env = Written"
    and "fst (get_model (load_result env) st) = Inr m"
    and "run_model env m (artifact_path env audio)
              ((files st)(artifact_path env audio \<mapsto> content)) = (Inr r, fs)"
    and "render_error (json_error env) (response_content r) = None"
    and "exists_file fs (artifact_path env audio)"
  shows "fst (transcribe env audio st) = Inr (response_content r)"
proof -
  let ?p = "artifact_path env audio"
  let ?st = "st\<lparr>files := (files st)(?p \<mapsto> content)\<rparr>"
  have gm: "get_model (load_result env) ?st =
            (fst (get_model (load_result env) st),
             (snd (get_model (load_result env) st))\<lparr>files := (files st)(?p \<mapsto> content)\<rparr>)"
    by (rule get_model_files)
  with assms(3,4,5) have "try_block env ?p ?st =
       (Inr (response_content r), (snd (get_model (load_result env) st))\<lparr>files := fs\<rparr>)"
    by (simp add: try_block_def)
  with assms(1,2,6) show ?thesis
    by (simp add: transcribe_written except_clause_def finally_clause_def unlink_def)
qed

text \<open>
  A result with a number that does not serialise gives no response: the exception of the
  serialisation is handled like any other raised in \<^verbatim>\<open>try\<close>.
\<close>

lemma transcribe_render_failure:
  assumes "read_result env = Inr content" and "write_result env = Written"
    and "fst (get_model (load_result env) st) = Inr m"
    and "run_model env m (artifact_path env audio)
              ((files st)(artifact_path env audio \<mapsto> content)) = (Inr r, fs)"
    and "render_error (json_error env) (response_content r) = Some e"
    and "exists_file fs (artifact_path env audio)"
  shows "fst (transcribe env audio st) =
         (if is_Exception e then Inl (HTTPException 500 (str e)) else Inl (Unhandled e))"
proof -
  let ?p = "artifact_path env audio"
  let ?st = "st\<lparr>files := (files st)(?p \<mapsto> content)\<rparr>"
  have gm: "get_model (load_result env) ?st =
            (fst (get_model (load_result env) st),
             (snd (get_model (load_result env) st))\<lparr>files := (files st)(?p \<mapsto> content)\<rparr>)"
    by (rule get_model_files)
  with assms(3,4,5) have "try_block env ?p ?st =
       (Inl e, (snd (get_model (load_result env) st))\<lparr>files := fs\<rparr>)"
    by (simp add: try_block_def)
  with assms(1,2,6) show ?thesis
    by (simp add: transcribe_written except_clause_def finally_clause_def unlink_def)
qed

lemma hello_serialises: "render_error numbers_ok (response_content hello) = None"
  by (simp add: response_content_def hello_def truthy_def or_empty_def seg_json_def
      numbers_ok_def)

text \<open>Once the model is loaded, a transcription request neither replaces nor rebuilds it.\<close>

lemma transcribe_keeps_model:
  assumes "g_model st = Some m"
  shows "g_model (snd (transcribe env audio st)) = Some m \<and>
         constructions (snd (transcribe env audio st)) = constructions st"
  using assms
  by (auto simp: transcribe_def Let_def try_block_def get_model_def finally_clause_def
      split: sum.splits write_outcome.splits prod.splits option.splits)

section \<open>The claims\<close>

subsection \<open>Model acquisition\<close>

text \<open>
  C7. The model handle is constructed at most once on the success path: once a call of
  \<^verbatim>\<open>get_model\<close> has returned a model, the global holds that model and every later call, whatever
  \<^verbatim>\<open>from_pretrained\<close> would do then, returns the same model and leaves the state, and so the
  count of constructions, as it is. If the construction raises, the exception reaches the
  caller, \<^verbatim>\<open>_model\<close> stays \<^verbatim>\<open>None\<close>, and the next call constructs again: its result is what
  \<^verbatim>\<open>from_pretrained\<close> yields then and the count of constructions has grown by two.
\<close>

theorem get_model_singleton:
  fixes st :: "'m server"
  shows "(get_model load st = (Inr m, st') \<longrightarrow>
            g_model st' = Some m \<and>
            get_model_calls loads st' = (replicate (length loads) (Inr m), st')) \<and>
         (g_model st = None \<and> load = Inl e \<longrightarrow>
            fst (get_model load st) = Inl e \<and>
            g_model (snd (get_model load st)) = None \<and>
            fst (get_model load' (snd (get_model load st))) = load' \<and>
            constructions (snd (get_model load' (snd (get_model load st)))) =
              Suc (Suc (constructions st)))"
proof (intro conjI impI)
  assume a: "get_model load st = (Inr m, st')"
  then show g: "g_model st' = Some m"
    by (auto simp: get_model_def split: option.splits sum.splits)
  then show "get_model_calls loads st' = (replicate (length loads) (Inr m), st')"
    by (rule get_model_calls_ready)
next
  assume "g_model st = None \<and> load = Inl e"
  then show "fst (get_model load st) = Inl e"
    and "g_model (snd (get_model load st)) = None"
    and "fst (get_model load' (snd (get_model load st))) = load'"
    and "constructions (snd (get_model load' (snd (get_model load st)))) =
              Suc (Suc (constructions st))"
    by (auto simp: get_model_def split: sum.splits)
qed

theorem get_model_singleton_witness:
  "get_model (Inr ''parakeet'') unloaded =
     (Inr ''parakeet'', \<lparr>g_model = Some ''parakeet'', constructions = 1, files = no_files\<rparr>) \<and>
   get_model_calls [Inl (PyException ''x''), Inr ''other'']
       \<lparr>g_model = Some ''parakeet'', constructions = 1, files = no_files\<rparr> =
     ([Inr ''parakeet'', Inr ''parakeet''],
      \<lparr>g_model = Some ''parakeet'', constructions = 1, files = no_files\<rparr>) \<and>
   g_model (snd (get_model (Inl (PyException ''no network'')) unloaded)) = None \<and>
   fst (get_model (Inr ''parakeet'') (snd (get_model (Inl (PyException ''no network'')) unloaded)))
     = Inr ''parakeet''"
proof -
  have a: "get_model (Inr ''parakeet'') unloaded =
     (Inr ''parakeet'', \<lparr>g_model = Some ''parakeet'', constructions = 1, files = no_files\<rparr>)"
    by (simp add: get_model_def unloaded_def)
  have b: "g_model unloaded = None \<and> (Inl (PyException ''no network'') :: exn + string) = Inl (PyException ''no network'')"
    by (simp add: unloaded_def)
  from get_model_singleton [where load = "Inr ''parakeet''" and st = unloaded
      and m = "''parakeet''" and loads = "[Inl (PyException ''x''), Inr ''other'']"
      and e = "PyException ''no network''" and load' = "Inr ''parakeet''"]
    get_model_singleton [where load = "Inl (PyException ''no network'')" and st = unloaded
      and e = "PyException ''no network''" and load' = "Inr ''parakeet''"]
    a b
  show ?thesis by simp
qed

subsection \<open>The health endpoint\<close>

text \<open>
  C9. The health endpoint returns the fixed body \<^verbatim>\<open>{"status": "ok", "model":
  "parakeet-tdt-0.6b-v3"}\<close>. The body is the same in every state of the server, so before
  and after a call of \<^verbatim>\<open>get_model\<close>, and the call leaves the state as it is: the model is
  neither read nor constructed.
\<close>

theorem health_fixed:
  "fst (health st) =
     (JObj [(''status'', JStr ''ok''), (''model'', JStr ''parakeet-tdt-0.6b-v3'')] :: 'n json) \<and>
   snd (health st) = st \<and>
   (fst (health st) :: 'n json) = fst (health st') \<and>
   (fst (health (snd (get_model load st))) :: 'n json) = fst (health st) \<and>
   g_model (snd (health st)) = g_model st \<and>
   constructions (snd (health st)) = constructions st"
  by (simp add: health_def)

subsection \<open>The name of the temporary file\<close>

text \<open>
  C8. The temporary file's extension is the suffix of the upload's file name when there is
  a file name, and \<^verbatim>\<open>.webm\<close> when there is none: without a file name the file is
  \<^verbatim>\<open>dir/tmp<random>.webm\<close>; with a non-empty file name it is \<^verbatim>\<open>dir/tmp<random>\<close> followed by the
  suffix pathlib gives the name; and a file name that ends in a dot and an extension (a
  non-empty name before the dot, no dot and no slash in the extension, as in
  \<^verbatim>\<open>clip.flac\<close>) yields that dot and extension.
\<close>

theorem artifact_extension:
  "(filename audio = None \<longrightarrow>
      artifact_path env audio = tmp_dir env @ ''/tmp'' @ tmp_rand env @ ''.webm'') \<and>
   (filename audio = Some f \<and> f \<noteq> [] \<longrightarrow>
      artifact_path env audio = tmp_dir env @ ''/tmp'' @ tmp_rand env @ path_suffix f) \<and>
   (filename audio = Some (pre @ ''.'' @ ext) \<and> pre \<noteq> [] \<and> last pre \<noteq> CHR ''/'' \<and>
    ext \<noteq> [] \<and> CHR ''/'' \<notin> set ext \<and> CHR ''.'' \<notin> set ext \<longrightarrow>
      artifact_path env audio = tmp_dir env @ ''/tmp'' @ tmp_rand env @ ''.'' @ ext)"
  using path_suffix_ext [of pre ext]
  by (auto simp: artifact_path_def tmp_name_def artifact_suffix_def)

theorem artifact_extension_witness:
  "filename clip_flac = Some (''clip'' @ ''.'' @ ''flac'') \<and>
   artifact_path (request_env (Inr ''RIFF'') (model_returns hello)) clip_flac = ''/tmp/tmpa1b2.flac'' \<and>
   artifact_path (request_env (Inr ''RIFF'') (model_returns hello))
     \<lparr>filename = None, content_type = None\<rparr> = ''/tmp/tmpa1b2.webm''"
  using artifact_extension [where audio = clip_flac and pre = "''clip''" and ext = "''flac''"
      and env = "request_env (Inr ''RIFF'') (model_returns hello)"]
    artifact_extension [where audio = "\<lparr>filename = None, content_type = None\<rparr>"
      and env = "request_env (Inr ''RIFF'') (model_returns hello)"]
  by (simp add: clip_flac_def request_env_def)

text \<open>
  C10. An upload whose file name is present and contains no dot (as \<^verbatim>\<open>clip\<close>) gets a
  temporary file with the empty suffix, \<^verbatim>\<open>dir/tmp<random>\<close>, not \<^verbatim>\<open>.webm\<close>. A non-empty file name
  always contributes its own suffix; the default \<^verbatim>\<open>.webm\<close> is taken when the file name is
  absent or empty.
\<close>

theorem no_extension_empty_suffix:
  "(filename audio = Some f \<and> f \<noteq> [] \<and> CHR ''.'' \<notin> set f \<longrightarrow>
      artifact_suffix (filename audio) = [] \<and>
      artifact_path env audio = tmp_dir env @ ''/tmp'' @ tmp_rand env) \<and>
   (f \<noteq> [] \<longrightarrow> artifact_suffix (Some f) = path_suffix f) \<and>
   artifact_suffix None = ''.webm'' \<and>
   artifact_suffix (Some []) = ''.webm''"
  by (auto simp: artifact_path_def tmp_name_def artifact_suffix_def path_suffix_no_dot)

theorem no_extension_empty_suffix_witness:
  "artifact_suffix (Some ''clip'') = [] \<and>
   artifact_path (request_env (Inr ''RIFF'') (model_returns hello))
     \<lparr>filename = Some ''clip'', content_type = None\<rparr> = ''/tmp/tmpa1b2''"
  using no_extension_empty_suffix [where audio = "\<lparr>filename = Some ''clip'', content_type = None\<rparr>"
      and f = "''clip''" and env = "request_env (Inr ''RIFF'') (model_returns hello)"]
  by (simp add: request_env_def)

subsection \<open>The response\<close>

text \<open>
  C4. When the handler returns a response (the upload was read and written, a model is
  there or is constructed, the model returns a result whose segment numbers serialise, and
  the temporary file is still there for the cleanup), the response has the two fields
  \<^verbatim>\<open>text\<close> and \<^verbatim>\<open>segments\<close>. Its \<^verbatim>\<open>text\<close> is the result's text. Its \<^verbatim>\<open>segments\<close> is the list of
  \<^verbatim>\<open>{start, end, text}\<close> objects of the result's segments, in their order, when the result has a
  non-empty segment list; it is the empty list when the result has no \<^verbatim>\<open>segments\<close> attribute,
  when the attribute is \<^verbatim>\<open>None\<close> and when the list is empty.
\<close>

theorem transcribe_response_mapping:
  assumes "read_result env = Inr content" and "write_result env = Written"
    and "fst (get_model (load_result env) st) = Inr m"
    and "run_model env m (artifact_path env audio)
              ((files st)(artifact_path env audio \<mapsto> content)) = (Inr r, fs)"
    and "\<And>xs seg. res_segments r = Some (Some xs) \<Longrightarrow> seg \<in> set xs \<Longrightarrow>
           json_error env (seg_start seg) = None \<and> json_error env (seg_end seg) = None"
    and "exists_file fs (artifact_path env audio)"
  shows "\<exists>segs.
           fst (transcribe env audio st) =
             Inr (JObj [(''text'', JStr (res_text r)), (''segments'', JArr segs)]) \<and>
           (\<forall>xs. res_segments r = Some (Some xs) \<and> xs \<noteq> [] \<longrightarrow>
              segs = map (\<lambda>seg. JObj [(''start'', JNum (seg_start seg)),
                                      (''end'', JNum (seg_end seg)),
                                      (''text'', JStr (seg_text seg))]) xs) \<and>
           (res_segments r = None \<or> res_segments r = Some None \<or>
            res_segments r = Some (Some []) \<longrightarrow> segs = [])"
proof -
  let ?p = "artifact_path env audio"
  let ?st = "st\<lparr>files := (files st)(?p \<mapsto> content)\<rparr>"
  have ser: "render_error (json_error env) (response_content r) = None"
    using assms(5) by (rule render_response_content)
  have "get_model (load_result env) ?st =
            (fst (get_model (load_result env) st),
             (snd (get_model (load_result env) st))\<lparr>files := (files st)(?p \<mapsto> content)\<rparr>)"
    by (rule get_model_files)
  with assms(3,4) ser have "try_block env ?p ?st =
       (Inr (response_content r), (snd (get_model (load_result env) st))\<lparr>files := fs\<rparr>)"
    by (simp add: try_block_def)
  with assms(1,2,6) have "fst (transcribe env audio st) = Inr (response_content r)"
    by (simp add: transcribe_written except_clause_def finally_clause_def unlink_def)
  then show ?thesis
    by (auto simp: response_content_def truthy_def or_empty_def seg_json_def
        split: option.splits)
qed

theorem transcribe_response_mapping_witness:
  "fst (transcribe (request_env (Inr ''RIFF'') (model_returns hello)) clip_flac unloaded) =
     Inr (JObj [(''text'', JStr ''hello''),
                (''segments'',
                   JArr [JObj [(''start'', JNum 0), (''end'', JNum 1),
                               (''text'', JStr ''hello'')]])]) \<and>
   fst (transcribe
          (request_env (Inr ''RIFF'') (model_returns \<lparr>res_text = ''hi'', res_segments = None\<rparr>))
          clip_flac unloaded) =
     Inr (JObj [(''text'', JStr ''hi''), (''segments'', JArr [])])"
proof -
  let ?hi = "\<lparr>res_text = ''hi'', res_segments = None\<rparr> :: int result"
  let ?env1 = "request_env (Inr ''RIFF'') (model_returns hello)"
  let ?env2 = "request_env (Inr ''RIFF'') (model_returns ?hi)"
  let ?p = "''/tmp/tmpa1b2.flac''"
  let ?fs = "(files unloaded)(?p \<mapsto> ''RIFF'')"
  have r1: "read_result ?env1 = Inr ''RIFF''" and w1: "write_result ?env1 = Written"
    and r2: "read_result ?env2 = Inr ''RIFF''" and w2: "write_result ?env2 = Written"
    by (simp_all add: request_env_def)
  have g1: "fst (get_model (load_result ?env1) unloaded) = Inr ''parakeet''"
    and g2: "fst (get_model (load_result ?env2) unloaded) = Inr ''parakeet''"
    by (simp_all add: request_env_def get_model_def unloaded_def)
  have m1: "run_model ?env1 ''parakeet'' (artifact_path ?env1 clip_flac)
              ((files unloaded)(artifact_path ?env1 clip_flac \<mapsto> ''RIFF'')) = (Inr hello, ?fs)"
    by (simp add: clip_flac_path) (simp add: request_env_def model_returns_def)
  have m2: "run_model ?env2 ''parakeet'' (artifact_path ?env2 clip_flac)
              ((files unloaded)(artifact_path ?env2 clip_flac \<mapsto> ''RIFF'')) = (Inr ?hi, ?fs)"
    by (simp add: clip_flac_path) (simp add: request_env_def model_returns_def)
  have j1: "\<And>xs seg. res_segments hello = Some (Some xs) \<Longrightarrow> seg \<in> set xs \<Longrightarrow>
           json_error ?env1 (seg_start seg) = None \<and> json_error ?env1 (seg_end seg) = None"
    and j2: "\<And>xs seg. res_segments ?hi = Some (Some xs) \<Longrightarrow> seg \<in> set xs \<Longrightarrow>
           json_error ?env2 (seg_start seg) = None \<and> json_error ?env2 (seg_end seg) = None"
    by (simp_all add: request_env_def numbers_ok_def)
  have e1: "exists_file ?fs (artifact_path ?env1 clip_flac)"
    and e2: "exists_file ?fs (artifact_path ?env2 clip_flac)"
    by (simp_all add: clip_flac_path exists_file_def)
  from transcribe_response_mapping [OF r1 w1 g1 m1 j1 e1]
    transcribe_response_mapping [OF r2 w2 g2 m2 j2 e2]
  show ?thesis by (auto simp: hello_def)
qed

subsection \<open>Cleanup of the temporary file\<close>

text \<open>
  C2. When the upload was read and written to the temporary file, that file does not exist
  when the handler is left, whatever happens after: the model is there or is constructed
  or its construction raises, the model's \<^verbatim>\<open>transcribe\<close> returns or raises, and whatever it
  does to the files.
\<close>

theorem artifact_deleted_on_every_exit:
  assumes "read_result env = Inr content" and "write_result env = Written"
  shows "\<not> exists_file (files (snd (transcribe env audio st))) (artifact_path env audio)"
  using assms
  by (simp add: transcribe_written finally_clause_removes split: prod.splits)

theorem artifact_deleted_on_every_exit_witness:
  "read_result (request_env (Inr ''RIFF'') (model_raises (PyException ''boom''))) = Inr ''RIFF'' \<and>
   write_result (request_env (Inr ''RIFF'') (model_raises (PyException ''boom''))) = Written \<and>
   \<not> exists_file
       (files (snd (transcribe (request_env (Inr ''RIFF'') (model_raises (PyException ''boom'')))
                      clip_flac unloaded)))
       ''/tmp/tmpa1b2.flac''"
  using artifact_deleted_on_every_exit
    [where env = "request_env (Inr ''RIFF'') (model_raises (PyException ''boom''))"
       and content = "''RIFF''" and audio = clip_flac and st = unloaded]
  by (simp add: clip_flac_path) (simp add: request_env_def)

text \<open>
  C5, evaluated where the write of the upload fails (the disk is full after two bytes): the
  exception leaves the handler unhandled and the model is not constructed, but the
  temporary file, holding the two bytes, is still there when the handler is left. The same
  happens when reading the upload fails: the file stays, empty.
\<close>

theorem upload_failure_leaves_artifact:
  "fst (transcribe
          ((request_env (Inr ''RIFF'') (model_returns hello))
             \<lparr>write_result := WriteFailed (PyException ''No space left on device'') ''RI''\<rparr>)
          clip_flac unloaded)
     = Inl (Unhandled (PyException ''No space left on device'')) \<and>
   files (snd (transcribe
          ((request_env (Inr ''RIFF'') (model_returns hello))
             \<lparr>write_result := WriteFailed (PyException ''No space left on device'') ''RI''\<rparr>)
          clip_flac unloaded)) ''/tmp/tmpa1b2.flac'' = Some ''RI'' \<and>
   constructions (snd (transcribe
          ((request_env (Inr ''RIFF'') (model_returns hello))
             \<lparr>write_result := WriteFailed (PyException ''No space left on device'') ''RI''\<rparr>)
          clip_flac unloaded)) = 0 \<and>
   fst (transcribe (request_env (Inl (PyException ''read failed'')) (model_returns hello))
          clip_flac unloaded)
     = Inl (Unhandled (PyException ''read failed'')) \<and>
   files (snd (transcribe (request_env (Inl (PyException ''read failed'')) (model_returns hello))
          clip_flac unloaded)) ''/tmp/tmpa1b2.flac'' = Some []"
proof -
  have p: "artifact_path
             ((request_env (Inr ''RIFF'') (model_returns hello))
                \<lparr>write_result := WriteFailed (PyException ''No space left on device'') ''RI''\<rparr>)
             clip_flac = ''/tmp/tmpa1b2.flac''"
    using clip_flac_path [of "Inr ''RIFF''" "model_returns hello"]
    by (simp add: artifact_path_def)
  show ?thesis
    by (simp add: transcribe_def Let_def clip_flac_path p)
       (simp add: request_env_def unloaded_def)
qed

text \<open>
  C6, as the code has it. After the upload was read and written, what the caller observes is
  decided by the cleanup: when the temporary file still exists at the end of the \<^verbatim>\<open>try\<close>
  statement, \<^verbatim>\<open>os.unlink\<close> succeeds and the caller observes the primary outcome (the response,
  the HTTP 500 error, or the exception that is no \<^verbatim>\<open>Exception\<close>); when the file is gone,
  \<^verbatim>\<open>os.unlink\<close> raises \<^verbatim>\<open>FileNotFoundError\<close> and the caller observes that exception in place of
  the primary outcome.
\<close>

theorem cleanup_outcome:
  assumes "read_result env = Inr content" and "write_result env = Written"
    and "try_block env (artifact_path env audio)
           (st\<lparr>files := (files st)(artifact_path env audio \<mapsto> content)\<rparr>) = (r, st1)"
  shows "fst (transcribe env audio st) =
         (if exists_file (files st1) (artifact_path env audio) then except_clause r
          else Inl (Unhandled (FileNotFoundError (artifact_path env audio))))"
  using assms
  by (simp add: transcribe_written finally_clause_def unlink_def)

theorem cleanup_outcome_witness:
  "read_result (request_env (Inr ''RIFF'') (model_returns hello)) = Inr ''RIFF'' \<and>
   write_result (request_env (Inr ''RIFF'') (model_returns hello)) = Written \<and>
   fst (transcribe (request_env (Inr ''RIFF'') (model_returns hello)) clip_flac unloaded)
     = Inr (response_content hello)"
proof -
  let ?env = "request_env (Inr ''RIFF'') (model_returns hello) :: (string, int) env"
  let ?st1 = "\<lparr>g_model = Some ''parakeet'', constructions = 1,
               files = no_files(''/tmp/tmpa1b2.flac'' \<mapsto> ''RIFF'')\<rparr>"
  have h1: "read_result ?env = Inr ''RIFF''" and h2: "write_result ?env = Written"
    by (simp_all add: request_env_def)
  have h3: "try_block ?env (artifact_path ?env clip_flac)
           (unloaded\<lparr>files := (files unloaded)(artifact_path ?env clip_flac \<mapsto> ''RIFF'')\<rparr>)
           = (Inr (response_content hello), ?st1)"
    using hello_serialises
    by (simp add: clip_flac_path)
       (simp add: request_env_def try_block_def get_model_def unloaded_def model_returns_def)
  from cleanup_outcome [OF h1 h2 h3] h1 h2 show ?thesis
    by (simp add: clip_flac_path exists_file_def except_clause_def)
qed

text \<open>
  C6 as stated fails: the model returns a result, the temporary file is gone when the
  cleanup runs, and the caller observes \<^verbatim>\<open>FileNotFoundError\<close>, not the response.
\<close>

theorem cleanup_failure_counterexample:
  "except_clause (fst (try_block (request_env (Inr ''RIFF'') (model_returns_file_gone hello))
                         ''/tmp/tmpa1b2.flac''
                         (unloaded\<lparr>files := (files unloaded)(''/tmp/tmpa1b2.flac'' \<mapsto> ''RIFF'')\<rparr>)))
     = Inr (response_content hello) \<and>
   fst (transcribe (request_env (Inr ''RIFF'') (model_returns_file_gone hello)) clip_flac unloaded)
     = Inl (Unhandled (FileNotFoundError ''/tmp/tmpa1b2.flac''))"
  using hello_serialises
  by (simp add: transcribe_def Let_def clip_flac_path)
     (simp add: request_env_def try_block_def get_model_def unloaded_def
        model_returns_file_gone_def except_clause_def finally_clause_def unlink_def
        exists_file_def)

subsection \<open>Failures of the model\<close>

text \<open>
  C3, as the code has it. After the upload was read and written, take an exception raised
  by the acquisition of the model, or raised by the model's \<^verbatim>\<open>transcribe\<close> with the temporary
  file still there when the cleanup runs. If the exception is an instance of \<^verbatim>\<open>Exception\<close>, it
  leaves the handler as \<^verbatim>\<open>HTTPException\<close> with status 500 and the exception's string as
  detail. If it derives from \<^verbatim>\<open>BaseException\<close> only, it is not caught and leaves the handler
  unchanged.
\<close>

theorem raised_exception_outcome:
  assumes "read_result env = Inr content" and "write_result env = Written"
    and "fst (get_model (load_result env) st) = Inl e \<or>
         (\<exists>m fs. fst (get_model (load_result env) st) = Inr m \<and>
            run_model env m (artifact_path env audio)
              ((files st)(artifact_path env audio \<mapsto> content)) = (Inl e, fs) \<and>
            exists_file fs (artifact_path env audio))"
  shows "fst (transcribe env audio st) =
         (if is_Exception e then Inl (HTTPException 500 (str e)) else Inl (Unhandled e))"
proof -
  let ?p = "artifact_path env audio"
  let ?st = "st\<lparr>files := (files st)(?p \<mapsto> content)\<rparr>"
  have gm: "get_model (load_result env) ?st =
            (fst (get_model (load_result env) st),
             (snd (get_model (load_result env) st))\<lparr>files := (files st)(?p \<mapsto> content)\<rparr>)"
    by (rule get_model_files)
  from assms(3) show ?thesis
  proof
    assume "fst (get_model (load_result env) st) = Inl e"
    with gm have "try_block env ?p ?st =
       (Inl e, (snd (get_model (load_result env) st))\<lparr>files := (files st)(?p \<mapsto> content)\<rparr>)"
      by (simp add: try_block_def)
    with assms(1,2) show ?thesis
      by (simp add: transcribe_written except_clause_def finally_clause_def unlink_def
          exists_file_def)
  next
    assume "\<exists>m fs. fst (get_model (load_result env) st) = Inr m \<and>
            run_model env m ?p ((files st)(?p \<mapsto> content)) = (Inl e, fs) \<and>
            exists_file fs ?p"
    then obtain m fs where m: "fst (get_model (load_result env) st) = Inr m"
      and run: "run_model env m ?p ((files st)(?p \<mapsto> content)) = (Inl e, fs)"
      and ex: "exists_file fs ?p" by blast
    from gm m run have "try_block env ?p ?st =
       (Inl e, (snd (get_model (load_result env) st))\<lparr>files := fs\<rparr>)"
      by (simp add: try_block_def)
    with assms(1,2) ex show ?thesis
      by (simp add: transcribe_written except_clause_def finally_clause_def unlink_def)
  qed
qed

theorem raised_exception_outcome_witness:
  "fst (transcribe (request_env (Inr ''RIFF'') (model_raises (PyException ''boom'')))
          clip_flac unloaded) = Inl (HTTPException 500 ''boom'') \<and>
   fst (transcribe (request_env (Inr ''RIFF'') (model_raises (PyBaseException ''SystemExit'')))
          clip_flac unloaded) = Inl (Unhandled (PyBaseException ''SystemExit'')) \<and>
   fst (transcribe (request_env (Inr ''RIFF'') (model_raises (FileNotFoundError ''/x.wav'')))
          clip_flac unloaded) =
     Inl (HTTPException 500
            (''[Errno 2] No such file or directory: '' @ [CHR 0x27] @ ''/x.wav'' @ [CHR 0x27]))"
proof -
  have h: "read_result (request_env (Inr ''RIFF'') (model_raises e)) = Inr ''RIFF'' \<and>
           write_result (request_env (Inr ''RIFF'') (model_raises e)) = Written \<and>
           (fst (get_model (load_result (request_env (Inr ''RIFF'') (model_raises e))) unloaded)
              = Inl e \<or>
            (\<exists>m fs. fst (get_model (load_result (request_env (Inr ''RIFF'') (model_raises e)))
                            unloaded) = Inr m \<and>
               run_model (request_env (Inr ''RIFF'') (model_raises e)) m
                 (artifact_path (request_env (Inr ''RIFF'') (model_raises e)) clip_flac)
                 ((files unloaded)
                    (artifact_path (request_env (Inr ''RIFF'') (model_raises e)) clip_flac
                       \<mapsto> ''RIFF'')) = (Inl e, fs) \<and>
               exists_file fs
                 (artifact_path (request_env (Inr ''RIFF'') (model_raises e)) clip_flac)))"
    for e
    by (simp add: clip_flac_path)
       (simp add: request_env_def get_model_def unloaded_def model_raises_def exists_file_def)
  have q: "py_repr ''/x.wav'' = [CHR 0x27] @ ''/x.wav'' @ [CHR 0x27]"
    by (simp add: py_repr_def py_escape_def printable_def Let_def)
  from raised_exception_outcome
      [where env = "request_env (Inr ''RIFF'') (model_raises (PyException ''boom''))"
         and content = "''RIFF''" and st = unloaded and e = "PyException ''boom''"
         and audio = clip_flac]
    raised_exception_outcome
      [where env = "request_env (Inr ''RIFF'') (model_raises (PyBaseException ''SystemExit''))"
         and content = "''RIFF''" and st = unloaded and e = "PyBaseException ''SystemExit''"
         and audio = clip_flac]
    raised_exception_outcome
      [where env = "request_env (Inr ''RIFF'') (model_raises (FileNotFoundError ''/x.wav''))"
         and content = "''RIFF''" and st = unloaded and e = "FileNotFoundError ''/x.wav''"
         and audio = clip_flac]
    h [of "PyException ''boom''"] h [of "PyBaseException ''SystemExit''"]
    h [of "FileNotFoundError ''/x.wav''"] q
  show ?thesis by simp
qed

text \<open>
  C3 as stated fails: an exception that derives from \<^verbatim>\<open>BaseException\<close> only, here
  \<^verbatim>\<open>KeyboardInterrupt\<close>, passes \<^verbatim>\<open>except Exception\<close> and leaves the handler as it is.
\<close>

theorem http_500_counterexample:
  "fst (transcribe (request_env (Inr ''RIFF'') (model_raises (PyBaseException ''KeyboardInterrupt'')))
          clip_flac unloaded)
     = Inl (Unhandled (PyBaseException ''KeyboardInterrupt'')) \<and>
   fst (transcribe (request_env (Inr ''RIFF'') (model_raises (PyBaseException ''KeyboardInterrupt'')))
          clip_flac unloaded)
     \<noteq> Inl (HTTPException 500 (str (PyBaseException ''KeyboardInterrupt'')))"
  by (simp add: transcribe_def Let_def clip_flac_path)
     (simp add: request_env_def try_block_def get_model_def unloaded_def model_raises_def
        except_clause_def finally_clause_def unlink_def exists_file_def)

end
